theory Spec2Isabelle
  imports Complex_Main
begin

section \<open>The filesystem file-upload backend (openassessment/fileupload/backends/filesystem.py)\<close>

subsection \<open>Errors, settings and the world the backend runs in\<close>

text \<open>
  The exceptions the module can raise. \<open>FileUploadInternalError\<close> carries the message
  the source gives it; \<open>InvalidCacheBackendError\<close> is what \<open>django.core.cache.caches[name]\<close>
  raises for a name that is not configured; \<open>NoReverseMatch\<close> is what Django's
  \<open>reverse\<close> raises when no route fits the arguments.
\<close>

datatype error =
    FileUploadInternalError string
  | InvalidCacheBackendError
  | NoReverseMatch

text \<open>
  What the module reads from its surroundings and never writes. The two \<open>ORA2_\<close> fields
  are \<open>getattr(settings, ..., None)\<close>: \<open>None\<close> is an undefined setting. The other fields
  stand for code that is not part of filesystem.py and is taken as a parameter:
  \<^item> \<open>bucket_name\<close> is \<open>Settings.get_bucket_name()\<close>, \<open>get_key_name\<close> is
    \<open>BaseBackend._get_key_name\<close>, and the two timeouts are the class constants of
    \<open>BaseBackend\<close> (backends/base.py);
  \<^item> \<open>abspath\<close> is \<open>os.path.abspath\<close> of the Python standard library, which depends on
    the working directory of the process;
  \<^item> \<open>url_prefix\<close> is the text Django's \<open>reverse\<close> puts before the route (the script
    prefix and the place where fileupload/urls.py is included).
\<close>

record settings =
  ORA2_FILEUPLOAD_ROOT :: "string option"
  ORA2_FILEUPLOAD_CACHE_NAME :: "string option"
  bucket_name :: string
  get_key_name :: "string \<Rightarrow> string"
  UPLOAD_URL_TIMEOUT :: int
  DOWNLOAD_URL_TIMEOUT :: int
  abspath :: "string \<Rightarrow> string"
  url_prefix :: string

text \<open>
  Modelled from the spec: the expiring authorization store. The store is the
  \<open>django.core.cache\<close> instance named by \<open>ORA2_FILEUPLOAD_CACHE_NAME\<close>; its code is not
  among the sources. Following the contract of the spec (\<open>set(key, value, ttl)\<close>,
  \<open>get(key) -> marker | absent\<close>, an entry is implicitly absent once its time-to-live has
  elapsed) an entry holds its value and the time at which it expires, and \<open>cache_get\<close>
  at time \<open>t\<close> answers \<open>None\<close> for a key never set and for an entry whose expiry is not
  after \<open>t\<close>. The store never evicts an entry before its expiry (a correctly functioning
  backing store).
\<close>

type_synonym cache = "string \<rightharpoonup> (int \<times> real)"

definition cache_set :: "cache \<Rightarrow> real \<Rightarrow> string \<Rightarrow> int \<Rightarrow> int \<Rightarrow> cache" where
  "cache_set c t key val timeout = c(key \<mapsto> (val, t + of_int timeout))"

definition cache_get :: "cache \<Rightarrow> real \<Rightarrow> string \<Rightarrow> int option" where
  "cache_get c t key =
     (case c key of
        None \<Rightarrow> None
      | Some (val, expiry) \<Rightarrow> if expiry \<le> t then None else Some val)"

text \<open>
  The mutable surroundings: the configured cache instances by name
  (\<open>django.core.cache.caches\<close>), the paths that exist in the filesystem
  (\<open>os.path.exists\<close>), and the clock in seconds.
\<close>

record world =
  caches :: "string \<rightharpoonup> cache"
  files :: "string set"
  now :: real

subsection \<open>Library functions the module calls\<close>

text \<open>\<open>os.path.join(a, b)\<close> of posixpath: an absolute \<open>b\<close> replaces \<open>a\<close>; otherwise
  a slash is put between the two unless \<open>a\<close> is empty or already ends with one.\<close>

definition os_path_join :: "string \<Rightarrow> string \<Rightarrow> string" where
  "os_path_join a b =
     (if b \<noteq> [] \<and> hd b = CHR ''/'' then b
      else if a = [] \<or> last a = CHR ''/'' then a @ b
      else a @ ''/'' @ b)"

definition os_path_exists :: "world \<Rightarrow> string \<Rightarrow> bool" where
  "os_path_exists w p = (p \<in> files w)"

text \<open>\<open>smart_text\<close> returns a text string unchanged; strings are text here.\<close>

definition smart_text :: "string \<Rightarrow> string" where
  "smart_text s = s"

text \<open>\<open>s.split(sep, 1)\<close>: the text before the first separator and the text after it,
  or the whole text alone when it holds no separator.\<close>

fun split1 :: "char \<Rightarrow> string \<Rightarrow> string list" where
  "split1 sep [] = [[]]"
| "split1 sep (c # cs) =
     (if c = sep then [[], cs]
      else (case split1 sep cs of
              [] \<Rightarrow> [[c]]
            | p # ps \<Rightarrow> (c # p) # ps))"

text \<open>
  Percent-encoding, \<open>urllib\<close>'s \<open>quote(s, safe)\<close>: letters, digits, \<open>_.-\<close> and the
  characters of \<open>safe\<close> stay as they are; every other byte becomes \<open>%\<close> and its two
  upper-case hexadecimal digits. Django's \<open>urlquote\<close> is \<open>quote\<close> with the safe character
  \<open>/\<close>, and its \<open>iri_to_uri\<close> is \<open>quote\<close> with the safe characters
  \<open>/#%[]=:;$&()+,!?*@'~\<close>.
\<close>

definition always_safe :: string where
  "always_safe = ''ABCDEFGHIJKLMNOPQRSTUVWXYZabcdefghijklmnopqrstuvwxyz0123456789_.-''"

definition hex_digit :: "nat \<Rightarrow> char" where
  "hex_digit n = ''0123456789ABCDEF'' ! n"

definition percent_encode :: "char \<Rightarrow> string" where
  "percent_encode c =
     [CHR ''%'', hex_digit (of_char c div 16), hex_digit (of_char c mod 16)]"

definition quote :: "string \<Rightarrow> string \<Rightarrow> string" where
  "quote safe s =
     concat (map (\<lambda>c. if c \<in> set (always_safe @ safe) then [c] else percent_encode c) s)"

definition urlquote :: "string \<Rightarrow> string" where
  "urlquote url = quote ''/'' url"

definition iri_to_uri :: "string \<Rightarrow> string" where
  "iri_to_uri iri = quote (''/#%[]=:;$&()+,!?*@'' @ [CHR 0x27] @ ''~'') iri"

text \<open>
  Percent-decoding, \<open>urllib\<close>'s \<open>unquote\<close>: \<open>%\<close> followed by two hexadecimal digits is
  the byte they name, and everything else stays. This is what a request path has gone
  through when Django matches it against the routes.
\<close>

definition hex_value :: "char \<Rightarrow> nat option" where
  "hex_value c =
     (let v = (of_char c :: nat) in
      if 48 \<le> v \<and> v \<le> 57 then Some (v - 48)
      else if 65 \<le> v \<and> v \<le> 70 then Some (v - 55)
      else if 97 \<le> v \<and> v \<le> 102 then Some (v - 87)
      else None)"

fun unquote :: "string \<Rightarrow> string" where
  "unquote (c # h # l # cs) =
     (if c = CHR ''%'' then
        (case (hex_value h, hex_value l) of
           (Some x, Some y) \<Rightarrow> char_of (16 * x + y) # unquote cs
         | _ \<Rightarrow> c # unquote (h # l # cs))
      else c # unquote (h # l # cs))"
| "unquote cs = cs"

subsection \<open>The routes of openassessment/fileupload/urls.py\<close>

text \<open>
  The tail \<open>(.+)/$\<close> shared by the two regular expressions: a non-empty group without a
  line feed (\<open>.\<close> matches no line feed), a slash, and the end of the text; \<open>$\<close> also
  matches just before a line feed that ends the text. The result is the group.
\<close>

definition LF :: char where
  "LF = CHR 0x0A"

definition match_dotplus_slash_end :: "string \<Rightarrow> string option" where
  "match_dotplus_slash_end s =
     (let body = (if s \<noteq> [] \<and> last s = LF then butlast s else s) in
      if body \<noteq> [] \<and> last body = CHR ''/'' \<and> butlast body \<noteq> [] \<and> LF \<notin> set (butlast body)
      then Some (butlast body) else None)"

text \<open>\<open>^(?P<key>[^|]+)\|(?P<filename>.+)/$\<close>: the key is the non-empty text before the
  first \<open>|\<close>, the filename is matched by the tail.\<close>

definition route_key_filename :: "string \<Rightarrow> (string \<times> string) option" where
  "route_key_filename s =
     (let k = takeWhile (\<lambda>c. c \<noteq> CHR ''|'') s; r = dropWhile (\<lambda>c. c \<noteq> CHR ''|'') s in
      if k = [] \<or> r = [] then None
      else (case match_dotplus_slash_end (tl r) of
              None \<Rightarrow> None
            | Some f \<Rightarrow> Some (k, f)))"

text \<open>\<open>^(?P<key>.+)/$\<close>.\<close>

definition route_key :: "string \<Rightarrow> string option" where
  "route_key s = match_dotplus_slash_end s"

text \<open>The keyword arguments a route takes: \<open>{'key': k}\<close> or
  \<open>{'key': k, 'filename': f}\<close>.\<close>

datatype kwargs = Kw_key string | Kw_key_filename string string

text \<open>Resolving a path against \<open>urlpatterns\<close>: the first route that matches wins.\<close>

definition resolve :: "string \<Rightarrow> kwargs option" where
  "resolve s =
     (case route_key_filename s of
        Some (k, f) \<Rightarrow> Some (Kw_key_filename k f)
      | None \<Rightarrow> (case route_key s of Some k \<Rightarrow> Some (Kw_key k) | None \<Rightarrow> None))"

text \<open>
  Django's \<open>reverse\<close> for the route name both patterns carry. It takes the pattern whose
  named groups are the keyword arguments given, substitutes the arguments into it and
  checks the text it gets against the pattern's regular expression; it raises
  \<open>NoReverseMatch\<close> when the check fails. Otherwise it substitutes the arguments again,
  each through \<open>urlquote\<close>, puts the prefix before the route and returns the whole
  through \<open>iri_to_uri\<close>, which leaves the encoded arguments as they are and encodes the
  \<open>|\<close> of the route as \<open>%7C\<close>.
\<close>

definition reverse :: "settings \<Rightarrow> string \<Rightarrow> kwargs \<Rightarrow> error + string" where
  "reverse cfg viewname kw =
     (if viewname \<noteq> ''openassessment-filesystem-storage'' then Inl NoReverseMatch
      else (case kw of
              Kw_key k \<Rightarrow>
                (if route_key (k @ ''/'') = None then Inl NoReverseMatch
                 else Inr (iri_to_uri (url_prefix cfg @ urlquote k @ ''/'')))
            | Kw_key_filename k f \<Rightarrow>
                (if route_key_filename (k @ ''|'' @ f @ ''/'') = None then Inl NoReverseMatch
                 else Inr (iri_to_uri
                             (url_prefix cfg @ urlquote k @ ''|'' @ urlquote f @ ''/'')))))"

subsection \<open>The cache of authorized URLs\<close>

definition get_cache :: "settings \<Rightarrow> world \<Rightarrow> error + (string \<times> cache)" where
  "get_cache cfg w =
     (case ORA2_FILEUPLOAD_CACHE_NAME cfg of
        None \<Rightarrow> Inl (FileUploadInternalError ''Undefined cache backend for file upload'')
      | Some cache_name \<Rightarrow>
          (case caches w cache_name of
             None \<Rightarrow> Inl InvalidCacheBackendError
           | Some c \<Rightarrow> Inr (cache_name, c)))"

definition get_upload_cache_key :: "string \<Rightarrow> string" where
  "get_upload_cache_key url_key_name = ''upload/'' @ url_key_name"

definition get_download_cache_key :: "string \<Rightarrow> string" where
  "get_download_cache_key url_key_name = ''download/'' @ url_key_name"

definition make_upload_url_available ::
  "settings \<Rightarrow> world \<Rightarrow> string \<Rightarrow> int \<Rightarrow> (error + unit) \<times> world" where
  "make_upload_url_available cfg w url_key_name timeout =
     (case get_cache cfg w of
        Inl e \<Rightarrow> (Inl e, w)
      | Inr (cache_name, c) \<Rightarrow>
          (Inr (),
           w\<lparr>caches := (caches w)(cache_name \<mapsto>
                cache_set c (now w) (smart_text (get_upload_cache_key url_key_name)) 1 timeout)\<rparr>))"

definition make_download_url_available ::
  "settings \<Rightarrow> world \<Rightarrow> string \<Rightarrow> int \<Rightarrow> (error + unit) \<times> world" where
  "make_download_url_available cfg w url_key_name timeout =
     (case get_cache cfg w of
        Inl e \<Rightarrow> (Inl e, w)
      | Inr (cache_name, c) \<Rightarrow>
          (Inr (),
           w\<lparr>caches := (caches w)(cache_name \<mapsto>
                cache_set c (now w) (smart_text (get_download_cache_key url_key_name)) 1 timeout)\<rparr>))"

definition is_upload_url_available :: "settings \<Rightarrow> world \<Rightarrow> string \<Rightarrow> error + bool" where
  "is_upload_url_available cfg w url_key_name =
     (case get_cache cfg w of
        Inl e \<Rightarrow> Inl e
      | Inr (cache_name, c) \<Rightarrow>
          Inr (cache_get c (now w) (smart_text (get_upload_cache_key url_key_name)) \<noteq> None))"

definition is_download_url_available :: "settings \<Rightarrow> world \<Rightarrow> string \<Rightarrow> error + bool" where
  "is_download_url_available cfg w url_key_name =
     (case get_cache cfg w of
        Inl e \<Rightarrow> Inl e
      | Inr (cache_name, c) \<Rightarrow>
          Inr (cache_get c (now w) (smart_text (get_download_cache_key url_key_name)) \<noteq> None))"

subsection \<open>The backend class\<close>

definition get_root_directory_path :: "settings \<Rightarrow> error + string" where
  "get_root_directory_path cfg =
     (case ORA2_FILEUPLOAD_ROOT cfg of
        None \<Rightarrow> Inl (FileUploadInternalError ''Undefined file upload root directory setting'')
      | Some root_dir \<Rightarrow>
          if root_dir = [] then
            Inl (FileUploadInternalError ''Undefined file upload root directory setting'')
          else Inr root_dir)"

definition get_bucket_path :: "settings \<Rightarrow> error + string" where
  "get_bucket_path cfg =
     (case get_root_directory_path cfg of
        Inl e \<Rightarrow> Inl e
      | Inr root_dir \<Rightarrow> Inr (abspath cfg (os_path_join root_dir (bucket_name cfg))))"

definition get_data_path :: "settings \<Rightarrow> string \<Rightarrow> error + string" where
  "get_data_path cfg key =
     (case get_bucket_path cfg of
        Inl e \<Rightarrow> Inl e
      | Inr bucket_path \<Rightarrow> Inr (os_path_join bucket_path key))"

definition get_file_path :: "settings \<Rightarrow> string \<Rightarrow> error + string" where
  "get_file_path cfg key =
     (case get_data_path cfg key of
        Inl e \<Rightarrow> Inl e
      | Inr data_path \<Rightarrow> Inr (os_path_join data_path ''content''))"

definition get_url :: "settings \<Rightarrow> string \<Rightarrow> error + string" where
  "get_url cfg key =
     (let key_name = split1 (CHR ''|'') (get_key_name cfg key) in
      if length key_name = 1 then
        reverse cfg ''openassessment-filesystem-storage'' (Kw_key (key_name ! 0))
      else
        reverse cfg ''openassessment-filesystem-storage''
          (Kw_key_filename (key_name ! 0) (key_name ! 1)))"

definition get_upload_url ::
  "settings \<Rightarrow> world \<Rightarrow> string \<Rightarrow> string \<Rightarrow> (error + string) \<times> world" where
  "get_upload_url cfg w key content_type =
     (case make_upload_url_available cfg w (get_key_name cfg key) (UPLOAD_URL_TIMEOUT cfg) of
        (Inl e, w') \<Rightarrow> (Inl e, w')
      | (Inr _, w') \<Rightarrow> (get_url cfg key, w'))"

definition get_download_url ::
  "settings \<Rightarrow> world \<Rightarrow> string \<Rightarrow> (error + string) \<times> world" where
  "get_download_url cfg w key =
     (case get_file_path cfg (get_key_name cfg key) of
        Inl e \<Rightarrow> (Inl e, w)
      | Inr file_path \<Rightarrow>
          if \<not> os_path_exists w file_path then (Inr [], w)
          else
            (case make_download_url_available cfg w (get_key_name cfg key)
                    (DOWNLOAD_URL_TIMEOUT cfg) of
               (Inl e, w') \<Rightarrow> (Inl e, w')
             | (Inr _, w') \<Rightarrow> (get_url cfg key, w')))"

subsection \<open>The layout of the spec, for comparison\<close>

text \<open>
  The physical location in the words of the spec: \<open>root_directory / bucket_name /
  storage_key / "content"\<close>, where the storage key of a composite key \<open>key|filename\<close>
  is the component before the first \<open>|\<close>. These two definitions follow the spec, not
  the code; they are what \<open>get_file_path\<close> is compared with.
\<close>

definition spec_storage_key :: "string \<Rightarrow> string" where
  "spec_storage_key key_name = takeWhile (\<lambda>c. c \<noteq> CHR ''|'') key_name"

definition spec_physical_path :: "string \<Rightarrow> string \<Rightarrow> string \<Rightarrow> string" where
  "spec_physical_path root_directory bucket key_name =
     root_directory @ ''/'' @ bucket @ ''/'' @ spec_storage_key key_name @ ''/content''"

subsection \<open>A concrete installation\<close>

text \<open>Settings and a world on which the theorems below are run: the root directory
  \<open>/data\<close>, the bucket \<open>openassessment\<close>, key names prefixed with \<open>attachments/\<close>, one
  empty cache, and one stored file.\<close>

definition demo_settings :: settings where
  "demo_settings =
     \<lparr>ORA2_FILEUPLOAD_ROOT = Some ''/data'',
      ORA2_FILEUPLOAD_CACHE_NAME = Some ''ora2-storage'',
      bucket_name = ''openassessment'',
      get_key_name = (\<lambda>key. ''attachments/'' @ key),
      UPLOAD_URL_TIMEOUT = 3600,
      DOWNLOAD_URL_TIMEOUT = 86400,
      abspath = (\<lambda>p. p),
      url_prefix = ''/openassessment/storage/''\<rparr>"

definition demo_world :: world where
  "demo_world =
     \<lparr>caches = [''ora2-storage'' \<mapsto> Map.empty],
      files = {''/data/openassessment/attachments/abc|def.png/content''},
      now = 0\<rparr>"

section \<open>The submission ledger (apps/submissions/models.py)\<close>

subsection \<open>The models\<close>

text \<open>The three models with the fields the source declares. A foreign key is the
  position of the row it refers to in its table; a nullable one is an \<open>option\<close>.\<close>

record StudentItem =
  student_id :: string
  course_id :: string
  item_id :: string
  item_type :: string

record Submission =
  submission_student_item :: nat
  attempt_number :: nat
  submitted_at :: real
  submission_created_at :: real
  answer :: string

record Score =
  score_student_item :: nat
  submission :: "nat option"
  points_earned :: nat
  points_possible :: nat
  score_created_at :: real

text \<open>\<open>StudentItem.Meta.unique_together = (("course_id", "student_id", "item_id"),)\<close>:
  the columns of a row that the constraint compares.\<close>

definition unique_together :: "StudentItem \<Rightarrow> string \<times> string \<times> string" where
  "unique_together si = (course_id si, student_id si, item_id si)"

record ledger =
  student_items :: "StudentItem list"
  submissions :: "Submission list"
  scores :: "Score list"

definition empty_ledger :: ledger where
  "empty_ledger = \<lparr>student_items = [], submissions = [], scores = []\<rparr>"

subsection \<open>The ledger operations\<close>

datatype db_error = IntegrityError

text \<open>
  Modelled from the spec: saving a new StudentItem row. The code that inserts rows (the
  object-relational layer and the database that enforce \<open>unique_together\<close>) is not among
  the sources. Following the spec ("creating two StudentItems with the same (course_id,
  student_id, item_id) is rejected"), an insert whose triple is already in the table is
  refused and any other insert appends the row.
\<close>

definition save_student_item :: "ledger \<Rightarrow> StudentItem \<Rightarrow> db_error + ledger" where
  "save_student_item l si =
     (if unique_together si \<in> set (map unique_together (student_items l))
      then Inl IntegrityError
      else Inr (l\<lparr>student_items := student_items l @ [si]\<rparr>))"

text \<open>
  Modelled from the spec: the ledger operation "create StudentItem (idempotent by unique
  triple)", whose code (the submissions API) is not among the sources. A triple already
  in the table collapses to the existing row; a new one is saved.
\<close>

definition create_student_item :: "ledger \<Rightarrow> StudentItem \<Rightarrow> (db_error + StudentItem) \<times> ledger" where
  "create_student_item l si =
     (case find (\<lambda>row. unique_together row = unique_together si) (student_items l) of
        Some row \<Rightarrow> (Inr row, l)
      | None \<Rightarrow>
          (case save_student_item l si of
             Inl e \<Rightarrow> (Inl e, l)
           | Inr l' \<Rightarrow> (Inr si, l')))"

text \<open>
  Modelled from the spec: "append Submission (never update)" and "append Score (never
  update)", whose code is not among the sources. A row is appended when the student item
  it refers to exists.
\<close>

definition append_submission :: "ledger \<Rightarrow> Submission \<Rightarrow> db_error + ledger" where
  "append_submission l sub =
     (if submission_student_item sub < length (student_items l)
      then Inr (l\<lparr>submissions := submissions l @ [sub]\<rparr>)
      else Inl IntegrityError)"

definition append_score :: "ledger \<Rightarrow> Score \<Rightarrow> db_error + ledger" where
  "append_score l sc =
     (if score_student_item sc < length (student_items l)
      then Inr (l\<lparr>scores := scores l @ [sc]\<rparr>)
      else Inl IntegrityError)"

text \<open>The operations that write to the ledger, and the ledger after one of them: an
  operation that is refused leaves every table as it was.\<close>

datatype ledger_op =
    Save_student_item StudentItem
  | Create_student_item StudentItem
  | Append_submission Submission
  | Append_score Score

fun ledger_step :: "ledger \<Rightarrow> ledger_op \<Rightarrow> ledger" where
  "ledger_step l (Save_student_item si) =
     (case save_student_item l si of Inl e \<Rightarrow> l | Inr l' \<Rightarrow> l')"
| "ledger_step l (Create_student_item si) = snd (create_student_item l si)"
| "ledger_step l (Append_submission sub) =
     (case append_submission l sub of Inl e \<Rightarrow> l | Inr l' \<Rightarrow> l')"
| "ledger_step l (Append_score sc) =
     (case append_score l sc of Inl e \<Rightarrow> l | Inr l' \<Rightarrow> l')"

definition run_ledger :: "ledger_op list \<Rightarrow> ledger" where
  "run_ledger ops = foldl ledger_step empty_ledger ops"

definition demo_item :: StudentItem where
  "demo_item =
     \<lparr>student_id = ''u1'', course_id = ''course-1'', item_id = ''problem7'',
      item_type = ''openassessment''\<rparr>"

section \<open>Properties of the file-upload backend\<close>

subsection \<open>Splitting, routes and the cache\<close>

lemma split1_no_sep: "sep \<notin> set s \<Longrightarrow> split1 sep s = [s]"
  by (induction s) auto

lemma split1_at_sep: "sep \<notin> set a \<Longrightarrow> split1 sep (a @ sep # b) = [a, b]"
  by (induction a) auto

lemma hex_digit_table:
  "list_all (\<lambda>n. hex_value (hex_digit n) = Some n \<and> hex_digit n \<in> set always_safe) [0..<16]"
  by code_simp

lemma hex_value_hex_digit: "n < 16 \<Longrightarrow> hex_value (hex_digit n) = Some n"
  using hex_digit_table by (simp add: list_all_iff)

lemma hex_digit_safe: "n < 16 \<Longrightarrow> hex_digit n \<in> set always_safe"
  using hex_digit_table by (simp add: list_all_iff)

lemma of_char_below_256: "(of_char c :: nat) < 256"
proof -
  have "(of_char c :: nat) mod 256 < 256" by simp
  then show ?thesis by (simp only: of_char_mod_256)
qed

lemma of_char_div_16: "(of_char c :: nat) div 16 < 16"
  using of_char_below_256 [of c] by arith

lemma unquote_percent_encode: "unquote (percent_encode c @ rest) = c # unquote rest"
  by (simp add: percent_encode_def hex_value_hex_digit of_char_div_16)

lemma unquote_other:
  assumes "c \<noteq> CHR ''%''"
  shows "unquote (c # xs) = c # unquote xs"
proof (cases xs)
  case Nil
  then show ?thesis by simp
next
  case (Cons h ys)
  with assms show ?thesis by (cases ys) simp_all
qed

lemma percent_not_always_safe: "CHR ''%'' \<notin> set always_safe"
  by (simp add: always_safe_def)

lemma unquote_quote:
  "CHR ''%'' \<notin> set safe \<Longrightarrow> unquote (quote safe s @ rest) = s @ unquote rest"
proof (induction s)
  case Nil
  then show ?case by (simp add: quote_def)
next
  case (Cons c s)
  have q: "quote safe (c # s) =
      (if c \<in> set (always_safe @ safe) then [c] else percent_encode c) @ quote safe s"
    by (simp add: quote_def)
  show ?case
  proof (cases "c \<in> set (always_safe @ safe)")
    case True
    with Cons.prems percent_not_always_safe have "c \<noteq> CHR ''%''" by auto
    with True Cons show ?thesis by (simp add: q unquote_other)
  next
    case False
    with Cons show ?thesis by (simp add: q unquote_percent_encode)
  qed
qed

lemma unquote_urlquote: "unquote (urlquote s @ rest) = s @ unquote rest"
  unfolding urlquote_def by (rule unquote_quote) simp

lemma quote_append: "quote safe (a @ b) = quote safe a @ quote safe b"
  by (simp add: quote_def)

lemma quote_unchanged: "set s \<subseteq> set (always_safe @ safe) \<Longrightarrow> quote safe s = s"
  by (induction s) (auto simp: quote_def)

lemma set_percent_encode: "set (percent_encode c) \<subseteq> insert (CHR ''%'') (set always_safe)"
  using hex_digit_safe [OF of_char_div_16, of c] hex_digit_safe [of "of_char c mod 16"]
  by (simp add: percent_encode_def)

lemma set_quote:
  "set (quote safe s) \<subseteq> insert (CHR ''%'') (set always_safe \<union> set safe)"
proof (induction s)
  case Nil
  then show ?case by (simp add: quote_def)
next
  case (Cons c s)
  have q: "quote safe (c # s) =
      (if c \<in> set (always_safe @ safe) then [c] else percent_encode c) @ quote safe s"
    by (simp add: quote_def)
  show ?case using Cons set_percent_encode [of c] by (auto simp: q)
qed

lemma iri_to_uri_urlquote: "iri_to_uri (urlquote s) = urlquote s"
  unfolding iri_to_uri_def
proof (rule quote_unchanged)
  show "set (urlquote s) \<subseteq> set (always_safe @ ''/#%[]=:;$&()+,!?*@'' @ [CHR 0x27] @ ''~'')"
    using set_quote [of "''/''" s] by (auto simp: urlquote_def)
qed

lemma iri_to_uri_append: "iri_to_uri (a @ b) = iri_to_uri a @ iri_to_uri b"
  by (simp add: iri_to_uri_def quote_append)

lemma iri_to_uri_pipe: "iri_to_uri ''|'' = ''%7C''"
  by (simp add: iri_to_uri_def quote_def always_safe_def percent_encode_def hex_digit_def)

lemma iri_to_uri_slash: "iri_to_uri ''/'' = ''/''"
  by (simp add: iri_to_uri_def quote_def always_safe_def)

lemma unquote_pipe: "unquote (''%7C'' @ rest) = CHR ''|'' # unquote rest"
  using unquote_percent_encode [of "CHR ''|''" rest]
  by (simp add: percent_encode_def hex_digit_def)

lemma quote_eq_Nil: "quote safe s = [] \<longleftrightarrow> s = []"
  by (cases s) (simp_all add: quote_def percent_encode_def)

lemma reverse_nonempty: "reverse cfg v kw \<noteq> Inr []"
  by (auto simp: reverse_def iri_to_uri_def quote_eq_Nil split: kwargs.splits)

lemma get_url_nonempty: "get_url cfg key \<noteq> Inr []"
  by (simp add: get_url_def Let_def reverse_nonempty)

lemma match_tail_iff:
  "match_dotplus_slash_end (b @ ''/'') = (if b \<noteq> [] \<and> LF \<notin> set b then Some b else None)"
  by (simp add: match_dotplus_slash_end_def LF_def)

lemma match_tail: "b \<noteq> [] \<Longrightarrow> LF \<notin> set b \<Longrightarrow> match_dotplus_slash_end (b @ ''/'') = Some b"
  by (simp add: match_tail_iff)

lemma takeWhile_upto: "c \<notin> set a \<Longrightarrow> takeWhile (\<lambda>x. x \<noteq> c) (a @ c # r) = a"
  by (induction a) auto

lemma dropWhile_upto: "c \<notin> set a \<Longrightarrow> dropWhile (\<lambda>x. x \<noteq> c) (a @ c # r) = c # r"
  by (induction a) auto

lemma takeWhile_all: "c \<notin> set a \<Longrightarrow> takeWhile (\<lambda>x. x \<noteq> c) a = a"
  by (induction a) auto

lemma dropWhile_all: "c \<notin> set a \<Longrightarrow> dropWhile (\<lambda>x. x \<noteq> c) a = []"
  by (induction a) auto

lemma route_key_filename_built:
  "a \<noteq> [] \<Longrightarrow> CHR ''|'' \<notin> set a \<Longrightarrow> b \<noteq> [] \<Longrightarrow> LF \<notin> set b \<Longrightarrow>
   route_key_filename (a @ ''|'' @ b @ ''/'') = Some (a, b)"
  by (simp add: route_key_filename_def takeWhile_upto dropWhile_upto match_tail Let_def)

lemma route_key_filename_iff:
  "CHR ''|'' \<notin> set a \<Longrightarrow>
   route_key_filename (a @ ''|'' @ b @ ''/'') =
     (if a \<noteq> [] \<and> b \<noteq> [] \<and> LF \<notin> set b then Some (a, b) else None)"
  using match_tail_iff [of b] match_tail_iff [of "[]"]
  by (auto simp: route_key_filename_def takeWhile_upto dropWhile_upto Let_def)

lemma route_key_filename_bare:
  "CHR ''|'' \<notin> set k \<Longrightarrow> route_key_filename (k @ ''/'') = None"
  by (simp add: route_key_filename_def Let_def dropWhile_all)

lemma resolve_composite:
  "a \<noteq> [] \<Longrightarrow> CHR ''|'' \<notin> set a \<Longrightarrow> b \<noteq> [] \<Longrightarrow> LF \<notin> set b \<Longrightarrow>
   resolve (a @ ''|'' @ b @ ''/'') = Some (Kw_key_filename a b)"
  using route_key_filename_built [of a b] by (simp add: resolve_def)

lemma resolve_bare:
  "k \<noteq> [] \<Longrightarrow> CHR ''|'' \<notin> set k \<Longrightarrow> LF \<notin> set k \<Longrightarrow>
   resolve (k @ ''/'') = Some (Kw_key k)"
  using route_key_filename_bare [of k] match_tail [of k]
  by (simp add: resolve_def route_key_def)

lemma encoded_composite:
  "iri_to_uri (p @ urlquote a @ ''|'' @ urlquote b @ ''/'') =
     iri_to_uri p @ urlquote a @ ''%7C'' @ urlquote b @ ''/''"
  by (simp only: iri_to_uri_append iri_to_uri_urlquote iri_to_uri_pipe iri_to_uri_slash)

lemma encoded_bare:
  "iri_to_uri (p @ urlquote k @ ''/'') = iri_to_uri p @ urlquote k @ ''/''"
  by (simp only: iri_to_uri_append iri_to_uri_urlquote iri_to_uri_slash)

lemma reverse_composite:
  "CHR ''|'' \<notin> set a \<Longrightarrow>
   reverse cfg ''openassessment-filesystem-storage'' (Kw_key_filename a b) =
     (if a \<noteq> [] \<and> b \<noteq> [] \<and> LF \<notin> set b
      then Inr (iri_to_uri (url_prefix cfg) @ urlquote a @ ''%7C'' @ urlquote b @ ''/'')
      else Inl NoReverseMatch)"
  using route_key_filename_iff [of a b] encoded_composite [of "url_prefix cfg" a b]
  by (simp add: reverse_def)

lemma reverse_bare:
  "reverse cfg ''openassessment-filesystem-storage'' (Kw_key k) =
     (if k \<noteq> [] \<and> LF \<notin> set k
      then Inr (iri_to_uri (url_prefix cfg) @ urlquote k @ ''/'')
      else Inl NoReverseMatch)"
  using match_tail_iff [of k] encoded_bare [of "url_prefix cfg" k]
  by (simp add: reverse_def route_key_def)

lemma unquote_slash: "unquote ''/'' = ''/''"
  by simp

lemma unquote_path_composite:
  "unquote (urlquote a @ ''%7C'' @ urlquote b @ ''/'') = a @ ''|'' @ b @ ''/''"
  by (simp only: unquote_urlquote unquote_pipe unquote_slash) simp

lemma unquote_path_bare: "unquote (urlquote k @ ''/'') = k @ ''/''"
  by (simp only: unquote_urlquote unquote_slash)

lemma get_url_composite:
  "get_key_name cfg key = a @ ''|'' @ b \<Longrightarrow> CHR ''|'' \<notin> set a \<Longrightarrow>
   get_url cfg key = reverse cfg ''openassessment-filesystem-storage'' (Kw_key_filename a b)"
  by (simp add: get_url_def split1_at_sep)

lemma get_url_bare:
  "CHR ''|'' \<notin> set (get_key_name cfg key) \<Longrightarrow>
   get_url cfg key = reverse cfg ''openassessment-filesystem-storage'' (Kw_key (get_key_name cfg key))"
  by (simp add: get_url_def split1_no_sep)

lemma make_download_ok:
  "get_cache cfg w = Inr (n, c) \<Longrightarrow>
   make_download_url_available cfg w k t =
     (Inr (), w\<lparr>caches := (caches w)(n \<mapsto> cache_set c (now w) (''download/'' @ k) 1 t)\<rparr>)"
  by (simp add: make_download_url_available_def smart_text_def get_download_cache_key_def)

lemma make_upload_ok:
  "get_cache cfg w = Inr (n, c) \<Longrightarrow>
   make_upload_url_available cfg w k t =
     (Inr (), w\<lparr>caches := (caches w)(n \<mapsto> cache_set c (now w) (''upload/'' @ k) 1 t)\<rparr>)"
  by (simp add: make_upload_url_available_def smart_text_def get_upload_cache_key_def)

lemma get_download_url_absent:
  "get_file_path cfg (get_key_name cfg key) = Inr p \<Longrightarrow> p \<notin> files w \<Longrightarrow>
   get_download_url cfg w key = (Inr [], w)"
  by (simp add: get_download_url_def os_path_exists_def)

lemma get_download_url_present_fst:
  "get_file_path cfg (get_key_name cfg key) = Inr p \<Longrightarrow> p \<in> files w \<Longrightarrow>
   fst (get_download_url cfg w key) \<noteq> Inr []"
  by (auto simp: get_download_url_def os_path_exists_def get_url_nonempty
           split: prod.splits sum.splits)

lemma get_download_url_present:
  "get_file_path cfg (get_key_name cfg key) = Inr p \<Longrightarrow> p \<in> files w \<Longrightarrow>
   get_cache cfg w = Inr (n, c) \<Longrightarrow>
   get_download_url cfg w key =
     (get_url cfg key,
      w\<lparr>caches := (caches w)(n \<mapsto>
           cache_set c (now w) (''download/'' @ get_key_name cfg key) 1 (DOWNLOAD_URL_TIMEOUT cfg))\<rparr>)"
  by (simp add: get_download_url_def os_path_exists_def make_download_ok)

lemma get_cache_after_set:
  "get_cache cfg w = Inr (n, c) \<Longrightarrow>
   get_cache cfg (w\<lparr>caches := (caches w)(n \<mapsto> c'), now := t\<rparr>) = Inr (n, c')"
  by (auto simp: get_cache_def split: option.splits)

lemma get_cache_after_update:
  "get_cache cfg w = Inr (n, c) \<Longrightarrow>
   get_cache cfg (w\<lparr>caches := (caches w)(n \<mapsto> c')\<rparr>) = Inr (n, c')"
  by (auto simp: get_cache_def split: option.splits)

lemma cache_get_set_same:
  "cache_get (cache_set c t0 k v timeout) t k = (if t0 + of_int timeout \<le> t then None else Some v)"
  by (simp add: cache_get_def cache_set_def)

lemma cache_get_set_other:
  "k' \<noteq> k \<Longrightarrow> cache_get (cache_set c t0 k v timeout) t k' = cache_get c t k'"
  by (simp add: cache_get_def cache_set_def)

lemma get_cache_files: "get_cache cfg (w\<lparr>files := fs\<rparr>) = get_cache cfg w"
  by (simp add: get_cache_def split: option.splits)

lemma get_upload_url_ok:
  "get_cache cfg w = Inr (n, c) \<Longrightarrow>
   get_upload_url cfg w key ct =
     (get_url cfg key,
      w\<lparr>caches := (caches w)(n \<mapsto>
           cache_set c (now w) (''upload/'' @ get_key_name cfg key) 1 (UPLOAD_URL_TIMEOUT cfg))\<rparr>)"
  by (simp add: get_upload_url_def make_upload_ok)

subsection \<open>The concrete installation\<close>

lemmas demo_path_defs = get_file_path_def get_data_path_def get_bucket_path_def
      get_root_directory_path_def demo_settings_def os_path_join_def

lemma demo_get_cache: "get_cache demo_settings demo_world = Inr (''ora2-storage'', Map.empty)"
  by (simp add: get_cache_def demo_settings_def demo_world_def)

lemmas quote_defs = iri_to_uri_def urlquote_def quote_def always_safe_def percent_encode_def
      hex_digit_def

lemma demo_iri_prefix:
  "iri_to_uri ''/openassessment/storage/'' = ''/openassessment/storage/''"
  by (simp add: quote_defs)

lemma demo_get_url_composite:
  "get_url demo_settings ''abc|def.png'' =
     Inr ''/openassessment/storage/attachments/abc%7Cdef.png/''"
proof -
  have k: "get_key_name demo_settings ''abc|def.png'' = ''attachments/abc'' @ ''|'' @ ''def.png''"
    by (simp add: demo_settings_def)
  have p: "url_prefix demo_settings = ''/openassessment/storage/''"
    by (simp add: demo_settings_def)
  have q: "urlquote ''attachments/abc'' = ''attachments/abc'' \<and> urlquote ''def.png'' = ''def.png''"
    by (simp add: quote_defs)
  have c: "CHR ''|'' \<notin> set ''attachments/abc''"
    by simp
  show ?thesis
    unfolding get_url_composite [OF k c] reverse_composite [OF c]
    by (simp add: p q demo_iri_prefix LF_def)
qed

lemma demo_get_url_bare:
  "get_url demo_settings ''new-key'' = Inr ''/openassessment/storage/attachments/new-key/''"
proof -
  have k: "CHR ''|'' \<notin> set (get_key_name demo_settings ''new-key'')"
    by (simp add: demo_settings_def)
  have n: "get_key_name demo_settings ''new-key'' = ''attachments/new-key''"
    by (simp add: demo_settings_def)
  have p: "url_prefix demo_settings = ''/openassessment/storage/''"
    by (simp add: demo_settings_def)
  have q: "urlquote ''attachments/new-key'' = ''attachments/new-key''"
    by (simp add: quote_defs)
  show ?thesis
    unfolding get_url_bare [OF k] reverse_bare n
    by (simp add: p q demo_iri_prefix LF_def)
qed

subsection \<open>Download URLs\<close>

text \<open>
  C1. Once the root directory is configured, so that the key has a physical content
  file \<open>p\<close>, \<open>get_download_url\<close> returns the empty string exactly when \<open>p\<close> does not
  exist at call time. When \<open>p\<close> exists and the cache is configured, the call stores the
  download grant of the key name with the configured download timeout and returns the URL
  of key addressing, which is never empty; the grant is then available until that
  timeout has elapsed.
\<close>

theorem get_download_url_correct:
  assumes "get_file_path cfg (get_key_name cfg key) = Inr p"
  shows "(fst (get_download_url cfg w key) = Inr [] \<longleftrightarrow> \<not> os_path_exists w p) \<and>
         (os_path_exists w p \<and> get_cache cfg w = Inr (n, c) \<longrightarrow>
            get_download_url cfg w key =
              (get_url cfg key,
               w\<lparr>caches := (caches w)(n \<mapsto>
                    cache_set c (now w) (get_download_cache_key (get_key_name cfg key)) 1
                      (DOWNLOAD_URL_TIMEOUT cfg))\<rparr>) \<and>
            get_url cfg key \<noteq> Inr [] \<and>
            (\<forall>t. is_download_url_available cfg (snd (get_download_url cfg w key)\<lparr>now := t\<rparr>)
                    (get_key_name cfg key) =
                  Inr (t < now w + of_int (DOWNLOAD_URL_TIMEOUT cfg))))"
proof (intro conjI impI)
  show "fst (get_download_url cfg w key) = Inr [] \<longleftrightarrow> \<not> os_path_exists w p"
    using get_download_url_absent [OF assms, of w] get_download_url_present_fst [OF assms, of w]
    by (auto simp: os_path_exists_def)
next
  assume h: "os_path_exists w p \<and> get_cache cfg w = Inr (n, c)"
  then have ex: "p \<in> files w" and gc: "get_cache cfg w = Inr (n, c)"
    by (simp_all add: os_path_exists_def)
  show eq: "get_download_url cfg w key =
      (get_url cfg key,
       w\<lparr>caches := (caches w)(n \<mapsto>
            cache_set c (now w) (get_download_cache_key (get_key_name cfg key)) 1
              (DOWNLOAD_URL_TIMEOUT cfg))\<rparr>)"
    using get_download_url_present [OF assms ex gc] by (simp add: get_download_cache_key_def)
  show "get_url cfg key \<noteq> Inr []" by (rule get_url_nonempty)
  show "\<forall>t. is_download_url_available cfg (snd (get_download_url cfg w key)\<lparr>now := t\<rparr>)
                    (get_key_name cfg key) =
                  Inr (t < now w + of_int (DOWNLOAD_URL_TIMEOUT cfg))"
    using get_cache_after_set [OF gc]
    by (auto simp: eq is_download_url_available_def smart_text_def cache_get_set_same)
qed

theorem get_download_url_correct_witness:
  "get_file_path demo_settings (get_key_name demo_settings ''abc|def.png'') =
     Inr ''/data/openassessment/attachments/abc|def.png/content'' \<and>
   os_path_exists demo_world ''/data/openassessment/attachments/abc|def.png/content'' \<and>
   get_cache demo_settings demo_world = Inr (''ora2-storage'', Map.empty) \<and>
   fst (get_download_url demo_settings demo_world ''abc|def.png'') \<noteq> Inr [] \<and>
   get_download_url demo_settings demo_world ''abc|def.png'' =
     (Inr ''/openassessment/storage/attachments/abc%7Cdef.png/'',
      demo_world\<lparr>caches := [''ora2-storage'' \<mapsto>
          [''download/attachments/abc|def.png'' \<mapsto> (1, 86400)]]\<rparr>) \<and>
   is_download_url_available demo_settings
     (snd (get_download_url demo_settings demo_world ''abc|def.png'')\<lparr>now := 86399\<rparr>)
     ''attachments/abc|def.png'' = Inr True"
proof -
  have p: "get_file_path demo_settings (get_key_name demo_settings ''abc|def.png'') =
     Inr ''/data/openassessment/attachments/abc|def.png/content''"
    by (simp add: demo_path_defs)
  have e: "os_path_exists demo_world ''/data/openassessment/attachments/abc|def.png/content''"
    by (simp add: os_path_exists_def demo_world_def)
  have kn: "get_key_name demo_settings ''abc|def.png'' = ''attachments/abc|def.png''"
    by (simp add: demo_settings_def)
  have to: "DOWNLOAD_URL_TIMEOUT demo_settings = 86400"
    by (simp add: demo_settings_def)
  have st: "caches demo_world = [''ora2-storage'' \<mapsto> Map.empty] \<and> now demo_world = 0"
    by (simp add: demo_world_def)
  have av: "is_download_url_available demo_settings
     (demo_world\<lparr>caches := [''ora2-storage'' \<mapsto>
          [''download/attachments/abc|def.png'' \<mapsto> (1, 86400)]], now := 86399\<rparr>)
     ''attachments/abc|def.png'' = Inr True"
    by (simp add: is_download_url_available_def get_cache_def demo_settings_def demo_world_def
        cache_get_def smart_text_def get_download_cache_key_def)
  from get_download_url_correct [OF p, where w = demo_world and n = "''ora2-storage''"
      and c = Map.empty] e demo_get_cache
  have "fst (get_download_url demo_settings demo_world ''abc|def.png'') \<noteq> Inr [] \<and>
     get_download_url demo_settings demo_world ''abc|def.png'' =
     (Inr ''/openassessment/storage/attachments/abc%7Cdef.png/'',
      demo_world\<lparr>caches := [''ora2-storage'' \<mapsto>
          [''download/attachments/abc|def.png'' \<mapsto> (1, 86400)]]\<rparr>)"
    by (simp add: kn to st demo_get_url_composite cache_set_def get_download_cache_key_def)
  with p e demo_get_cache av show ?thesis by simp
qed

text \<open>
  C8. For a key whose content file does not exist, \<open>get_download_url\<close> returns the empty
  URL and leaves the world, and with it every cache entry, as it was.
\<close>

theorem get_download_url_missing_blob_no_grant:
  assumes "get_file_path cfg (get_key_name cfg key) = Inr p"
    and "\<not> os_path_exists w p"
  shows "get_download_url cfg w key = (Inr [], w)"
  using assms by (simp add: get_download_url_def)

theorem get_download_url_missing_blob_no_grant_witness:
  "get_file_path demo_settings (get_key_name demo_settings ''never-written'') =
     Inr ''/data/openassessment/attachments/never-written/content'' \<and>
   \<not> os_path_exists demo_world ''/data/openassessment/attachments/never-written/content'' \<and>
   get_download_url demo_settings demo_world ''never-written'' = (Inr [], demo_world)"
proof -
  have p: "get_file_path demo_settings (get_key_name demo_settings ''never-written'') =
     Inr ''/data/openassessment/attachments/never-written/content''"
    by (simp add: demo_path_defs)
  have e: "\<not> os_path_exists demo_world ''/data/openassessment/attachments/never-written/content''"
    by (simp add: os_path_exists_def demo_world_def)
  from get_download_url_missing_blob_no_grant [OF p e] p e show ?thesis by simp
qed

subsection \<open>Upload URLs\<close>

text \<open>
  C2. With the cache configured, \<open>get_upload_url\<close> stores the upload grant of the key
  name with the configured upload timeout and returns the URL of key addressing. The
  files that exist play no part in the URL or in the cache it leaves. A second call at
  a later time \<open>t'\<close> leaves the grant expiring at \<open>t'\<close> plus the upload timeout: the
  time-to-live starts again.
\<close>

theorem get_upload_url_registers_grant:
  assumes "get_cache cfg w = Inr (n, c)"
  shows "get_upload_url cfg w key content_type =
           (get_url cfg key,
            w\<lparr>caches := (caches w)(n \<mapsto>
                 cache_set c (now w) (get_upload_cache_key (get_key_name cfg key)) 1
                   (UPLOAD_URL_TIMEOUT cfg))\<rparr>) \<and>
         fst (get_upload_url cfg (w\<lparr>files := fs\<rparr>) key content_type) =
           fst (get_upload_url cfg w key content_type) \<and>
         caches (snd (get_upload_url cfg (w\<lparr>files := fs\<rparr>) key content_type)) =
           caches (snd (get_upload_url cfg w key content_type)) \<and>
         (\<exists>c'. caches (snd (get_upload_url cfg
                    (snd (get_upload_url cfg w key content_type)\<lparr>now := t'\<rparr>) key content_type)) n
                 = Some c' \<and>
               c' (get_upload_cache_key (get_key_name cfg key)) =
                 Some (1, t' + of_int (UPLOAD_URL_TIMEOUT cfg)))"
proof (intro conjI)
  show eq: "get_upload_url cfg w key content_type =
           (get_url cfg key,
            w\<lparr>caches := (caches w)(n \<mapsto>
                 cache_set c (now w) (get_upload_cache_key (get_key_name cfg key)) 1
                   (UPLOAD_URL_TIMEOUT cfg))\<rparr>)"
    using get_upload_url_ok [OF assms] by (simp add: get_upload_cache_key_def)
  have gf: "get_cache cfg (w\<lparr>files := fs\<rparr>) = Inr (n, c)"
    using assms by (simp add: get_cache_files)
  show "fst (get_upload_url cfg (w\<lparr>files := fs\<rparr>) key content_type) =
           fst (get_upload_url cfg w key content_type)"
    by (simp add: get_upload_url_ok [OF gf] get_upload_url_ok [OF assms])
  show "caches (snd (get_upload_url cfg (w\<lparr>files := fs\<rparr>) key content_type)) =
           caches (snd (get_upload_url cfg w key content_type))"
    by (simp add: get_upload_url_ok [OF gf] get_upload_url_ok [OF assms])
  let ?c1 = "cache_set c (now w) (get_upload_cache_key (get_key_name cfg key)) 1
                   (UPLOAD_URL_TIMEOUT cfg)"
  have g2: "get_cache cfg (w\<lparr>caches := (caches w)(n \<mapsto> ?c1), now := t'\<rparr>) = Inr (n, ?c1)"
    by (rule get_cache_after_set [OF assms])
  show "\<exists>c'. caches (snd (get_upload_url cfg
                    (snd (get_upload_url cfg w key content_type)\<lparr>now := t'\<rparr>) key content_type)) n
                 = Some c' \<and>
               c' (get_upload_cache_key (get_key_name cfg key)) =
                 Some (1, t' + of_int (UPLOAD_URL_TIMEOUT cfg))"
    unfolding eq snd_conv get_upload_url_ok [OF g2]
    by (simp add: cache_set_def get_upload_cache_key_def)
qed

theorem get_upload_url_registers_grant_witness:
  "get_cache demo_settings demo_world = Inr (''ora2-storage'', Map.empty) \<and>
   \<not> os_path_exists demo_world ''/data/openassessment/attachments/new-key/content'' \<and>
   get_upload_url demo_settings demo_world ''new-key'' ''image/png'' =
     (Inr ''/openassessment/storage/attachments/new-key/'',
      demo_world\<lparr>caches := [''ora2-storage'' \<mapsto>
          [''upload/attachments/new-key'' \<mapsto> (1, 3600)]]\<rparr>)"
proof -
  have u: "get_url demo_settings ''new-key'' = Inr ''/openassessment/storage/attachments/new-key/''"
    by (rule demo_get_url_bare)
  have kn: "get_key_name demo_settings ''new-key'' = ''attachments/new-key''"
    by (simp add: demo_settings_def)
  have to: "UPLOAD_URL_TIMEOUT demo_settings = 3600"
    by (simp add: demo_settings_def)
  have st: "caches demo_world = [''ora2-storage'' \<mapsto> Map.empty] \<and> now demo_world = 0"
    by (simp add: demo_world_def)
  have e: "\<not> os_path_exists demo_world ''/data/openassessment/attachments/new-key/content''"
    by (simp add: os_path_exists_def demo_world_def)
  from get_upload_url_registers_grant [OF demo_get_cache, where key = "''new-key''"
      and content_type = "''image/png''"]
  have "get_upload_url demo_settings demo_world ''new-key'' ''image/png'' =
     (Inr ''/openassessment/storage/attachments/new-key/'',
      demo_world\<lparr>caches := [''ora2-storage'' \<mapsto>
          [''upload/attachments/new-key'' \<mapsto> (1, 3600)]]\<rparr>)"
    by (simp add: u kn to st cache_set_def get_upload_cache_key_def)
  with demo_get_cache e show ?thesis by simp
qed

text \<open>
  C10. \<open>get_upload_url\<close> ignores its content type: two calls that differ in it alone
  return the same URL and leave the same world.
\<close>

theorem get_upload_url_ignores_content_type:
  "get_upload_url cfg w key content_type1 = get_upload_url cfg w key content_type2"
  by (simp add: get_upload_url_def)

subsection \<open>Grants\<close>

text \<open>
  C3. With the cache configured, after \<open>make_upload_url_available k timeout\<close> (and
  likewise \<open>make_download_url_available\<close>) at the time of the world \<open>w\<close>, the
  availability check of the same key name answers \<open>True\<close> at every time \<open>t\<close> before
  \<open>timeout\<close> seconds have elapsed and \<open>False\<close> at every time after they have, on the
  store that keeps each entry until its expiry.
\<close>

theorem grant_available_until_timeout:
  assumes "get_cache cfg w = Inr (n, c)"
  shows "(t < now w + of_int timeout \<longrightarrow>
            is_upload_url_available cfg
              (snd (make_upload_url_available cfg w k timeout)\<lparr>now := t\<rparr>) k = Inr True \<and>
            is_download_url_available cfg
              (snd (make_download_url_available cfg w k timeout)\<lparr>now := t\<rparr>) k = Inr True) \<and>
         (now w + of_int timeout < t \<longrightarrow>
            is_upload_url_available cfg
              (snd (make_upload_url_available cfg w k timeout)\<lparr>now := t\<rparr>) k = Inr False \<and>
            is_download_url_available cfg
              (snd (make_download_url_available cfg w k timeout)\<lparr>now := t\<rparr>) k = Inr False)"
  using get_cache_after_set [OF assms]
  by (simp add: make_upload_ok [OF assms] make_download_ok [OF assms]
      is_upload_url_available_def is_download_url_available_def smart_text_def
      get_upload_cache_key_def get_download_cache_key_def cache_get_set_same)

theorem grant_available_until_timeout_witness:
  "get_cache demo_settings demo_world = Inr (''ora2-storage'', Map.empty) \<and>
   is_upload_url_available demo_settings
     (snd (make_upload_url_available demo_settings demo_world ''u1-problem7-att1'' 60)\<lparr>now := 30\<rparr>)
     ''u1-problem7-att1'' = Inr True \<and>
   is_upload_url_available demo_settings
     (snd (make_upload_url_available demo_settings demo_world ''u1-problem7-att1'' 60)\<lparr>now := 61\<rparr>)
     ''u1-problem7-att1'' = Inr False \<and>
   is_download_url_available demo_settings
     (snd (make_download_url_available demo_settings demo_world ''u1-problem7-att1'' 60)\<lparr>now := 30\<rparr>)
     ''u1-problem7-att1'' = Inr True \<and>
   is_download_url_available demo_settings
     (snd (make_download_url_available demo_settings demo_world ''u1-problem7-att1'' 0)\<lparr>now := 1\<rparr>)
     ''u1-problem7-att1'' = Inr False"
proof -
  have n0: "now demo_world = 0" by (simp add: demo_world_def)
  from grant_available_until_timeout [OF demo_get_cache, where t = 30 and timeout = 60
      and k = "''u1-problem7-att1''"]
    grant_available_until_timeout [OF demo_get_cache, where t = 61 and timeout = 60
      and k = "''u1-problem7-att1''"]
    grant_available_until_timeout [OF demo_get_cache, where t = 1 and timeout = 0
      and k = "''u1-problem7-att1''"]
    demo_get_cache
  show ?thesis by (simp add: n0)
qed

text \<open>
  C7. The cache keys are \<open>"upload/" + key_name\<close> and \<open>"download/" + key_name\<close>, which
  never coincide, whatever the two key names. So registering an upload grant leaves
  every download availability check as it was, and registering a download grant leaves
  every upload availability check as it was.
\<close>

theorem upload_download_grants_independent:
  "get_upload_cache_key k = ''upload/'' @ k \<and>
   get_download_cache_key k = ''download/'' @ k \<and>
   get_upload_cache_key k \<noteq> get_download_cache_key k' \<and>
   is_download_url_available cfg (snd (make_upload_url_available cfg w k timeout)) k' =
     is_download_url_available cfg w k' \<and>
   is_upload_url_available cfg (snd (make_download_url_available cfg w k timeout)) k' =
     is_upload_url_available cfg w k'"
proof -
  have ne: "get_upload_cache_key k \<noteq> get_download_cache_key k'"
    by (simp add: get_upload_cache_key_def get_download_cache_key_def)
  have ne': "get_download_cache_key k \<noteq> get_upload_cache_key k'"
    by (simp add: get_upload_cache_key_def get_download_cache_key_def)
  have d: "is_download_url_available cfg (snd (make_upload_url_available cfg w k timeout)) k' =
     is_download_url_available cfg w k'"
  proof (cases "get_cache cfg w")
    case (Inl e)
    then show ?thesis by (simp add: make_upload_url_available_def)
  next
    case (Inr nc)
    obtain n c where nc: "nc = (n, c)" by (cases nc)
    have g: "get_cache cfg w = Inr (n, c)" using Inr nc by simp
    show ?thesis
      using ne get_cache_after_update [OF g]
      by (simp add: make_upload_url_available_def g is_download_url_available_def
          smart_text_def cache_get_set_other)
  qed
  have u: "is_upload_url_available cfg (snd (make_download_url_available cfg w k timeout)) k' =
     is_upload_url_available cfg w k'"
  proof (cases "get_cache cfg w")
    case (Inl e)
    then show ?thesis by (simp add: make_download_url_available_def)
  next
    case (Inr nc)
    obtain n c where nc: "nc = (n, c)" by (cases nc)
    have g: "get_cache cfg w = Inr (n, c)" using Inr nc by simp
    show ?thesis
      using ne' get_cache_after_update [OF g]
      by (simp add: make_download_url_available_def g is_upload_url_available_def
          smart_text_def cache_get_set_other)
  qed
  show ?thesis using ne d u
    by (simp add: get_upload_cache_key_def get_download_cache_key_def)
qed

subsection \<open>Key addressing\<close>

lemma get_file_path_joins:
  "ORA2_FILEUPLOAD_ROOT cfg = Some root_dir \<Longrightarrow> root_dir \<noteq> [] \<Longrightarrow>
   get_file_path cfg key_name =
     Inr (os_path_join
            (os_path_join (abspath cfg (os_path_join root_dir (bucket_name cfg))) key_name)
            ''content'')"
  by (simp add: get_file_path_def get_data_path_def get_bucket_path_def
      get_root_directory_path_def)

lemma os_path_join_plain:
  "a \<noteq> [] \<Longrightarrow> last a \<noteq> CHR ''/'' \<Longrightarrow> b \<noteq> [] \<Longrightarrow> hd b \<noteq> CHR ''/'' \<Longrightarrow>
   os_path_join a b = a @ ''/'' @ b"
  by (simp add: os_path_join_def)

text \<open>
  C4. The key name is split at its first \<open>|\<close> only: \<open>abc|def.png\<close> gives the storage key
  \<open>abc\<close> and the filename \<open>def.png\<close>, \<open>abc\<close> gives the storage key alone, and
  \<open>a|def|ghi\<close> gives \<open>a\<close> and \<open>def|ghi\<close>; in general the text before the first \<open>|\<close>
  and all the text after it. \<open>get_url\<close> reverses the route with these components. For a
  composite key name it returns the prefix, the encoded storage key, the separator as
  \<open>%7C\<close>, the encoded filename and a slash when storage key and filename are not empty
  and the filename holds no line feed, and raises \<open>NoReverseMatch\<close> otherwise; for a
  bare key name it returns the prefix, the encoded key and a slash when the key is not
  empty and holds no line feed. Whatever URL \<open>get_url\<close> returns, its path after the
  prefix, decoded as a request path is, is resolved by \<open>urlpatterns\<close> to the route
  \<open>storage_key|filename/\<close> with the two components of the split, or to the route
  \<open>storage_key/\<close> with the bare key.
\<close>

theorem get_url_splits_on_first_pipe:
  "split1 (CHR ''|'') ''abc|def.png'' = [''abc'', ''def.png''] \<and>
   split1 (CHR ''|'') ''abc'' = [''abc''] \<and>
   split1 (CHR ''|'') ''a|def|ghi'' = [''a'', ''def|ghi''] \<and>
   (CHR ''|'' \<notin> set a \<longrightarrow> split1 (CHR ''|'') (a @ ''|'' @ b) = [a, b]) \<and>
   (CHR ''|'' \<notin> set k \<longrightarrow> split1 (CHR ''|'') k = [k]) \<and>
   (get_key_name cfg key = a @ ''|'' @ b \<and> CHR ''|'' \<notin> set a \<longrightarrow>
      get_url cfg key =
        reverse cfg ''openassessment-filesystem-storage'' (Kw_key_filename a b) \<and>
      get_url cfg key =
        (if a \<noteq> [] \<and> b \<noteq> [] \<and> LF \<notin> set b
         then Inr (iri_to_uri (url_prefix cfg) @ urlquote a @ ''%7C'' @ urlquote b @ ''/'')
         else Inl NoReverseMatch) \<and>
      (\<forall>u. get_url cfg key = Inr u \<longrightarrow>
         resolve (unquote (drop (length (iri_to_uri (url_prefix cfg))) u)) =
           Some (Kw_key_filename a b))) \<and>
   (get_key_name cfg key = k \<and> CHR ''|'' \<notin> set k \<longrightarrow>
      get_url cfg key = reverse cfg ''openassessment-filesystem-storage'' (Kw_key k) \<and>
      get_url cfg key =
        (if k \<noteq> [] \<and> LF \<notin> set k
         then Inr (iri_to_uri (url_prefix cfg) @ urlquote k @ ''/'')
         else Inl NoReverseMatch) \<and>
      (\<forall>u. get_url cfg key = Inr u \<longrightarrow>
         resolve (unquote (drop (length (iri_to_uri (url_prefix cfg))) u)) =
           Some (Kw_key k)))"
proof (intro conjI impI allI)
  show "split1 (CHR ''|'') ''abc|def.png'' = [''abc'', ''def.png'']" by simp
  show "split1 (CHR ''|'') ''abc'' = [''abc'']" by simp
  show "split1 (CHR ''|'') ''a|def|ghi'' = [''a'', ''def|ghi'']" by simp
  show "split1 (CHR ''|'') (a @ ''|'' @ b) = [a, b]" if "CHR ''|'' \<notin> set a"
    using split1_at_sep [OF that] by simp
  show "split1 (CHR ''|'') k = [k]" if "CHR ''|'' \<notin> set k"
    using that by (rule split1_no_sep)
next
  assume h: "get_key_name cfg key = a @ ''|'' @ b \<and> CHR ''|'' \<notin> set a"
  then have kn: "get_key_name cfg key = a @ ''|'' @ b" and na: "CHR ''|'' \<notin> set a"
    by simp_all
  show r: "get_url cfg key =
      reverse cfg ''openassessment-filesystem-storage'' (Kw_key_filename a b)"
    by (rule get_url_composite [OF kn na])
  show e: "get_url cfg key =
        (if a \<noteq> [] \<and> b \<noteq> [] \<and> LF \<notin> set b
         then Inr (iri_to_uri (url_prefix cfg) @ urlquote a @ ''%7C'' @ urlquote b @ ''/'')
         else Inl NoReverseMatch)"
    by (simp only: r reverse_composite [OF na])
  fix u
  assume u: "get_url cfg key = Inr u"
  with e have ok: "a \<noteq> [] \<and> b \<noteq> [] \<and> LF \<notin> set b"
    by (auto split: if_splits)
  with e u have "u = iri_to_uri (url_prefix cfg) @ urlquote a @ ''%7C'' @ urlquote b @ ''/''"
    by simp
  then have "drop (length (iri_to_uri (url_prefix cfg))) u =
      urlquote a @ ''%7C'' @ urlquote b @ ''/''"
    by simp
  then show "resolve (unquote (drop (length (iri_to_uri (url_prefix cfg))) u)) =
      Some (Kw_key_filename a b)"
    using ok na resolve_composite [of a b] by (simp only: unquote_path_composite) simp
next
  assume h: "get_key_name cfg key = k \<and> CHR ''|'' \<notin> set k"
  then have nk: "CHR ''|'' \<notin> set (get_key_name cfg key)" and kn: "get_key_name cfg key = k"
    by simp_all
  show r: "get_url cfg key = reverse cfg ''openassessment-filesystem-storage'' (Kw_key k)"
    using get_url_bare [OF nk] by (simp add: kn)
  show e: "get_url cfg key =
        (if k \<noteq> [] \<and> LF \<notin> set k
         then Inr (iri_to_uri (url_prefix cfg) @ urlquote k @ ''/'')
         else Inl NoReverseMatch)"
    by (simp only: r reverse_bare)
  fix u
  assume u: "get_url cfg key = Inr u"
  with e have ok: "k \<noteq> [] \<and> LF \<notin> set k"
    by (auto split: if_splits)
  with e u have "u = iri_to_uri (url_prefix cfg) @ urlquote k @ ''/''"
    by simp
  then have "drop (length (iri_to_uri (url_prefix cfg))) u = urlquote k @ ''/''"
    by simp
  then show "resolve (unquote (drop (length (iri_to_uri (url_prefix cfg))) u)) =
      Some (Kw_key k)"
    using ok h resolve_bare [of k] by (simp only: unquote_path_bare) simp
qed

theorem get_url_splits_on_first_pipe_witness:
  "get_url (demo_settings\<lparr>get_key_name := (\<lambda>key. key)\<rparr>) ''a|def|ghi'' =
     Inr ''/openassessment/storage/a%7Cdef%7Cghi/'' \<and>
   unquote ''a%7Cdef%7Cghi/'' = ''a|def|ghi/'' \<and>
   resolve (unquote ''a%7Cdef%7Cghi/'') = Some (Kw_key_filename ''a'' ''def|ghi'') \<and>
   get_url (demo_settings\<lparr>get_key_name := (\<lambda>key. key)\<rparr>) ''abc|my file.png'' =
     Inr ''/openassessment/storage/abc%7Cmy%20file.png/'' \<and>
   resolve (unquote ''abc%7Cmy%20file.png/'') = Some (Kw_key_filename ''abc'' ''my file.png'') \<and>
   get_url (demo_settings\<lparr>get_key_name := (\<lambda>key. key)\<rparr>) ''abc|'' = Inl NoReverseMatch \<and>
   get_url (demo_settings\<lparr>get_key_name := (\<lambda>key. key)\<rparr>) ''abc'' =
     Inr ''/openassessment/storage/abc/'' \<and>
   resolve (unquote ''abc/'') = Some (Kw_key ''abc'')"
proof -
  let ?cfg = "demo_settings\<lparr>get_key_name := (\<lambda>key. key)\<rparr>"
  have p: "iri_to_uri (url_prefix demo_settings) = ''/openassessment/storage/''"
    by (simp add: demo_settings_def demo_iri_prefix)
  have q: "urlquote ''a'' = ''a'' \<and> urlquote ''def|ghi'' = ''def%7Cghi'' \<and>
           urlquote ''abc'' = ''abc'' \<and> urlquote ''my file.png'' = ''my%20file.png''"
    by (simp add: quote_defs)
  have d: "unquote ''a%7Cdef%7Cghi/'' = ''a|def|ghi/''"
    by code_simp
  have h1: "get_key_name ?cfg ''a|def|ghi'' = ''a'' @ ''|'' @ ''def|ghi'' \<and>
            CHR ''|'' \<notin> set ''a''"
    by simp
  have h2: "get_key_name ?cfg ''abc|my file.png'' = ''abc'' @ ''|'' @ ''my file.png'' \<and>
            CHR ''|'' \<notin> set ''abc''"
    by simp
  have h3: "get_key_name ?cfg ''abc|'' = ''abc'' @ ''|'' @ [] \<and> CHR ''|'' \<notin> set ''abc''"
    by simp
  have h4: "get_key_name ?cfg ''abc'' = ''abc'' \<and> CHR ''|'' \<notin> set ''abc''"
    by simp
  note t1 = get_url_splits_on_first_pipe [where cfg = ?cfg and key = "''a|def|ghi''"
      and a = "''a''" and b = "''def|ghi''", THEN conjunct2, THEN conjunct2, THEN conjunct2,
      THEN conjunct2, THEN conjunct2, THEN conjunct1, THEN mp, OF h1]
  note t2 = get_url_splits_on_first_pipe [where cfg = ?cfg and key = "''abc|my file.png''"
      and a = "''abc''" and b = "''my file.png''", THEN conjunct2, THEN conjunct2,
      THEN conjunct2, THEN conjunct2, THEN conjunct2, THEN conjunct1, THEN mp, OF h2]
  note t3 = get_url_splits_on_first_pipe [where cfg = ?cfg and key = "''abc|''"
      and a = "''abc''" and b = "[]", THEN conjunct2, THEN conjunct2, THEN conjunct2,
      THEN conjunct2, THEN conjunct2, THEN conjunct1, THEN mp, OF h3]
  note t4 = get_url_splits_on_first_pipe [where cfg = ?cfg and key = "''abc''"
      and k = "''abc''", THEN conjunct2, THEN conjunct2, THEN conjunct2,
      THEN conjunct2, THEN conjunct2, THEN conjunct2, THEN mp, OF h4]
  from t1 [THEN conjunct2, THEN conjunct1]
  have g1: "get_url ?cfg ''a|def|ghi'' = Inr ''/openassessment/storage/a%7Cdef%7Cghi/''"
    by (simp add: p q LF_def)
  from t1 [THEN conjunct2, THEN conjunct2, THEN spec, THEN mp, OF g1]
  have r1: "resolve (unquote ''a%7Cdef%7Cghi/'') = Some (Kw_key_filename ''a'' ''def|ghi'')"
    by (simp add: p)
  from t2 [THEN conjunct2, THEN conjunct1]
  have g2: "get_url ?cfg ''abc|my file.png'' =
      Inr ''/openassessment/storage/abc%7Cmy%20file.png/''"
    by (simp add: p q LF_def)
  from t2 [THEN conjunct2, THEN conjunct2, THEN spec, THEN mp, OF g2]
  have r2: "resolve (unquote ''abc%7Cmy%20file.png/'') =
      Some (Kw_key_filename ''abc'' ''my file.png'')"
    by (simp add: p)
  from t3 [THEN conjunct2, THEN conjunct1]
  have g3: "get_url ?cfg ''abc|'' = Inl NoReverseMatch"
    by simp
  from t4 [THEN conjunct2, THEN conjunct1]
  have g4: "get_url ?cfg ''abc'' = Inr ''/openassessment/storage/abc/''"
    by (simp add: p q LF_def)
  from t4 [THEN conjunct2, THEN conjunct2, THEN spec, THEN mp, OF g4]
  have r4: "resolve (unquote ''abc/'') = Some (Kw_key ''abc'')"
    by (simp add: p)
  from g1 d r1 g2 r2 g3 g4 r4 show ?thesis by (intro conjI)
qed

text \<open>
  C5, as the claim states it, fails: the directory of a composite key is not named by
  the storage key alone. For the key name \<open>abc|def.png\<close> the code's content file is
  \<open>/data/openassessment/abc|def.png/content\<close>, the spec's layout gives
  \<open>/data/openassessment/abc/content\<close>, and \<open>get_download_url\<close> finds no content when only
  the latter exists.
\<close>

theorem file_path_storage_key_counterexample:
  "get_file_path demo_settings ''abc|def.png'' =
     Inr ''/data/openassessment/abc|def.png/content'' \<and>
   spec_physical_path ''/data'' ''openassessment'' ''abc|def.png'' =
     ''/data/openassessment/abc/content'' \<and>
   get_file_path demo_settings ''abc|def.png'' \<noteq>
     Inr (spec_physical_path ''/data'' ''openassessment'' ''abc|def.png'') \<and>
   get_download_url demo_settings
     (demo_world\<lparr>files := {''/data/openassessment/attachments/abc/content''}\<rparr>)
     ''abc|def.png'' =
     (Inr [], demo_world\<lparr>files := {''/data/openassessment/attachments/abc/content''}\<rparr>)"
  by (simp add: demo_path_defs spec_physical_path_def spec_storage_key_def
      get_download_url_def os_path_exists_def)

text \<open>
  C5, amended. With the root directory configured, the content file of a key name is
  \<open>join(join(abspath(join(root, bucket)), key_name), "content")\<close>; for a root, a bucket
  and a key name that neither start nor end with a slash, and a bucket path that
  \<open>abspath\<close> leaves as it is, that is \<open>root/bucket/key_name/content\<close>. The directory is
  named by the whole key name, the \<open>|filename\<close> part of a composite key included, and
  \<open>content\<close> is the fixed leaf; for a key name without \<open>|\<close> the whole key name is the
  storage key.
\<close>

theorem file_path_layout:
  assumes "ORA2_FILEUPLOAD_ROOT cfg = Some root_dir" and "root_dir \<noteq> []"
  shows "get_file_path cfg key_name =
           Inr (os_path_join
                  (os_path_join (abspath cfg (os_path_join root_dir (bucket_name cfg))) key_name)
                  ''content'') \<and>
         (last root_dir \<noteq> CHR ''/'' \<and>
          bucket_name cfg \<noteq> [] \<and> hd (bucket_name cfg) \<noteq> CHR ''/'' \<and>
          last (bucket_name cfg) \<noteq> CHR ''/'' \<and>
          abspath cfg (root_dir @ ''/'' @ bucket_name cfg) = root_dir @ ''/'' @ bucket_name cfg \<and>
          key_name \<noteq> [] \<and> hd key_name \<noteq> CHR ''/'' \<and> last key_name \<noteq> CHR ''/'' \<longrightarrow>
            get_file_path cfg key_name =
              Inr (root_dir @ ''/'' @ bucket_name cfg @ ''/'' @ key_name @ ''/content'')) \<and>
         (CHR ''|'' \<notin> set key_name \<longrightarrow> spec_storage_key key_name = key_name)"
proof (intro conjI impI)
  show j: "get_file_path cfg key_name =
           Inr (os_path_join
                  (os_path_join (abspath cfg (os_path_join root_dir (bucket_name cfg))) key_name)
                  ''content'')"
    by (rule get_file_path_joins [OF assms])
  show "spec_storage_key key_name = key_name" if "CHR ''|'' \<notin> set key_name"
    using that by (simp add: spec_storage_key_def takeWhile_all)
  assume h: "last root_dir \<noteq> CHR ''/'' \<and>
          bucket_name cfg \<noteq> [] \<and> hd (bucket_name cfg) \<noteq> CHR ''/'' \<and>
          last (bucket_name cfg) \<noteq> CHR ''/'' \<and>
          abspath cfg (root_dir @ ''/'' @ bucket_name cfg) = root_dir @ ''/'' @ bucket_name cfg \<and>
          key_name \<noteq> [] \<and> hd key_name \<noteq> CHR ''/'' \<and> last key_name \<noteq> CHR ''/''"
  have b: "os_path_join root_dir (bucket_name cfg) = root_dir @ ''/'' @ bucket_name cfg"
    using h assms(2) by (simp add: os_path_join_plain)
  have bp: "abspath cfg (os_path_join root_dir (bucket_name cfg)) = root_dir @ ''/'' @ bucket_name cfg"
    using h b by simp
  have d: "os_path_join (root_dir @ ''/'' @ bucket_name cfg) key_name =
             root_dir @ ''/'' @ bucket_name cfg @ ''/'' @ key_name"
    using h by (simp add: os_path_join_def)
  have f: "os_path_join (root_dir @ ''/'' @ bucket_name cfg @ ''/'' @ key_name) ''content'' =
             root_dir @ ''/'' @ bucket_name cfg @ ''/'' @ key_name @ ''/content''"
    using h by (simp add: os_path_join_def)
  show "get_file_path cfg key_name =
          Inr (root_dir @ ''/'' @ bucket_name cfg @ ''/'' @ key_name @ ''/content'')"
    by (simp only: j bp d f)
qed

theorem file_path_layout_witness:
  "ORA2_FILEUPLOAD_ROOT demo_settings = Some ''/data'' \<and>
   get_file_path demo_settings ''abc|def.png'' =
     Inr ''/data/openassessment/abc|def.png/content'' \<and>
   get_file_path demo_settings ''abc'' = Inr ''/data/openassessment/abc/content'' \<and>
   spec_storage_key ''abc'' = ''abc''"
proof -
  have r: "ORA2_FILEUPLOAD_ROOT demo_settings = Some ''/data''"
    by (simp add: demo_settings_def)
  have s: "bucket_name demo_settings = ''openassessment'' \<and> abspath demo_settings = (\<lambda>p. p)"
    by (simp add: demo_settings_def)
  from file_path_layout [OF r, where key_name = "''abc|def.png''"]
    file_path_layout [OF r, where key_name = "''abc''"] r
  show ?thesis by (simp add: s os_path_join_def)
qed

subsection \<open>Missing settings\<close>

text \<open>
  C6. When \<open>ORA2_FILEUPLOAD_ROOT\<close> is undefined or empty, every function that resolves a
  physical path, \<open>get_download_url\<close> included, raises \<open>FileUploadInternalError\<close>. When
  \<open>ORA2_FILEUPLOAD_CACHE_NAME\<close> is undefined, \<open>get_cache\<close> and with it every grant
  operation raises \<open>FileUploadInternalError\<close>: the availability checks raise instead of
  answering \<open>False\<close>, and the URL functions that register a grant raise as well.
\<close>

theorem missing_settings_raise:
  "(ORA2_FILEUPLOAD_ROOT cfg = None \<or> ORA2_FILEUPLOAD_ROOT cfg = Some [] \<longrightarrow>
      get_root_directory_path cfg =
        Inl (FileUploadInternalError ''Undefined file upload root directory setting'') \<and>
      get_bucket_path cfg =
        Inl (FileUploadInternalError ''Undefined file upload root directory setting'') \<and>
      get_data_path cfg k =
        Inl (FileUploadInternalError ''Undefined file upload root directory setting'') \<and>
      get_file_path cfg k =
        Inl (FileUploadInternalError ''Undefined file upload root directory setting'') \<and>
      get_download_url cfg w key =
        (Inl (FileUploadInternalError ''Undefined file upload root directory setting''), w)) \<and>
   (ORA2_FILEUPLOAD_CACHE_NAME cfg = None \<longrightarrow>
      get_cache cfg w = Inl (FileUploadInternalError ''Undefined cache backend for file upload'') \<and>
      make_upload_url_available cfg w k timeout =
        (Inl (FileUploadInternalError ''Undefined cache backend for file upload''), w) \<and>
      make_download_url_available cfg w k timeout =
        (Inl (FileUploadInternalError ''Undefined cache backend for file upload''), w) \<and>
      is_upload_url_available cfg w k =
        Inl (FileUploadInternalError ''Undefined cache backend for file upload'') \<and>
      is_download_url_available cfg w k =
        Inl (FileUploadInternalError ''Undefined cache backend for file upload'') \<and>
      get_upload_url cfg w key content_type =
        (Inl (FileUploadInternalError ''Undefined cache backend for file upload''), w) \<and>
      (get_file_path cfg (get_key_name cfg key) = Inr p \<and> os_path_exists w p \<longrightarrow>
         get_download_url cfg w key =
           (Inl (FileUploadInternalError ''Undefined cache backend for file upload''), w)))"
proof (intro conjI impI)
  assume r: "ORA2_FILEUPLOAD_ROOT cfg = None \<or> ORA2_FILEUPLOAD_ROOT cfg = Some []"
  show 1: "get_root_directory_path cfg =
        Inl (FileUploadInternalError ''Undefined file upload root directory setting'')"
    using r by (auto simp: get_root_directory_path_def)
  show 2: "get_bucket_path cfg =
        Inl (FileUploadInternalError ''Undefined file upload root directory setting'')"
    by (simp add: get_bucket_path_def 1)
  show 3: "get_data_path cfg k =
        Inl (FileUploadInternalError ''Undefined file upload root directory setting'')"
    by (simp add: get_data_path_def 2)
  show "get_file_path cfg k =
        Inl (FileUploadInternalError ''Undefined file upload root directory setting'')"
    by (simp add: get_file_path_def 3)
  show "get_download_url cfg w key =
        (Inl (FileUploadInternalError ''Undefined file upload root directory setting''), w)"
    by (simp add: get_download_url_def get_file_path_def get_data_path_def 2)
next
  assume c: "ORA2_FILEUPLOAD_CACHE_NAME cfg = None"
  show g: "get_cache cfg w =
      Inl (FileUploadInternalError ''Undefined cache backend for file upload'')"
    using c by (simp add: get_cache_def)
  show mu: "make_upload_url_available cfg w k timeout =
        (Inl (FileUploadInternalError ''Undefined cache backend for file upload''), w)"
    by (simp add: make_upload_url_available_def g)
  show "make_download_url_available cfg w k timeout =
        (Inl (FileUploadInternalError ''Undefined cache backend for file upload''), w)"
    by (simp add: make_download_url_available_def g)
  show "is_upload_url_available cfg w k =
        Inl (FileUploadInternalError ''Undefined cache backend for file upload'')"
    by (simp add: is_upload_url_available_def g)
  show "is_download_url_available cfg w k =
        Inl (FileUploadInternalError ''Undefined cache backend for file upload'')"
    by (simp add: is_download_url_available_def g)
  show "get_upload_url cfg w key content_type =
        (Inl (FileUploadInternalError ''Undefined cache backend for file upload''), w)"
    by (simp add: get_upload_url_def make_upload_url_available_def g)
  show "get_download_url cfg w key =
           (Inl (FileUploadInternalError ''Undefined cache backend for file upload''), w)"
    if "get_file_path cfg (get_key_name cfg key) = Inr p \<and> os_path_exists w p"
    using that by (simp add: get_download_url_def make_download_url_available_def g)
qed

theorem missing_settings_raise_witness:
  "ORA2_FILEUPLOAD_ROOT (demo_settings\<lparr>ORA2_FILEUPLOAD_ROOT := None\<rparr>) = None \<and>
   get_file_path (demo_settings\<lparr>ORA2_FILEUPLOAD_ROOT := None\<rparr>) ''attachments/abc'' =
     Inl (FileUploadInternalError ''Undefined file upload root directory setting'') \<and>
   get_download_url (demo_settings\<lparr>ORA2_FILEUPLOAD_ROOT := Some []\<rparr>) demo_world ''abc'' =
     (Inl (FileUploadInternalError ''Undefined file upload root directory setting''), demo_world) \<and>
   ORA2_FILEUPLOAD_CACHE_NAME (demo_settings\<lparr>ORA2_FILEUPLOAD_CACHE_NAME := None\<rparr>) = None \<and>
   is_upload_url_available (demo_settings\<lparr>ORA2_FILEUPLOAD_CACHE_NAME := None\<rparr>) demo_world
     ''attachments/abc'' =
     Inl (FileUploadInternalError ''Undefined cache backend for file upload'') \<and>
   get_download_url (demo_settings\<lparr>ORA2_FILEUPLOAD_CACHE_NAME := None\<rparr>) demo_world
     ''abc|def.png'' =
     (Inl (FileUploadInternalError ''Undefined cache backend for file upload''), demo_world)"
proof -
  let ?c = "demo_settings\<lparr>ORA2_FILEUPLOAD_CACHE_NAME := None\<rparr>"
  have p: "get_file_path ?c (get_key_name ?c ''abc|def.png'') =
             Inr ''/data/openassessment/attachments/abc|def.png/content''"
    by (simp add: demo_path_defs)
  have e: "os_path_exists demo_world ''/data/openassessment/attachments/abc|def.png/content''"
    by (simp add: os_path_exists_def demo_world_def)
  from missing_settings_raise [where cfg = "demo_settings\<lparr>ORA2_FILEUPLOAD_ROOT := None\<rparr>"
      and k = "''attachments/abc''"]
    missing_settings_raise [where cfg = "demo_settings\<lparr>ORA2_FILEUPLOAD_ROOT := Some []\<rparr>"
      and w = demo_world and key = "''abc''"]
    missing_settings_raise [where cfg = ?c and w = demo_world and k = "''attachments/abc''"
      and key = "''abc|def.png''"
      and p = "''/data/openassessment/attachments/abc|def.png/content''"]
    p e
  show ?thesis by simp
qed

section \<open>Properties of the submission ledger\<close>

lemma distinct_map_filter_le1:
  "distinct (map f xs) \<Longrightarrow> length (filter (\<lambda>x. f x = t) xs) \<le> 1"
proof (induction xs)
  case Nil
  then show ?case by simp
next
  case (Cons x xs)
  show ?case
  proof (cases "f x = t")
    case True
    with Cons.prems have "\<forall>y \<in> set xs. f y \<noteq> t" by (auto simp: image_iff)
    then have "filter (\<lambda>x. f x = t) xs = []" by (simp add: filter_empty_conv)
    with True show ?thesis by simp
  next
    case False
    with Cons show ?thesis by simp
  qed
qed

lemma find_Some_mem: "find P xs = Some x \<Longrightarrow> x \<in> set xs \<and> P x"
  by (induction xs) (auto split: if_splits)

lemma find_present:
  "k \<in> set (map f xs) \<Longrightarrow> \<exists>row. find (\<lambda>row. f row = k) xs = Some row"
  by (induction xs) auto

lemma create_student_item_keeps_unique:
  "distinct (map unique_together (student_items l)) \<Longrightarrow>
   distinct (map unique_together (student_items (snd (create_student_item l si))))"
  by (auto simp: create_student_item_def save_student_item_def split: option.splits)

lemma ledger_step_keeps_unique:
  "distinct (map unique_together (student_items l)) \<Longrightarrow>
   distinct (map unique_together (student_items (ledger_step l op)))"
proof (cases op)
  case (Save_student_item si)
  assume "distinct (map unique_together (student_items l))"
  then show ?thesis using Save_student_item
    by (auto simp: save_student_item_def)
next
  case (Create_student_item si)
  assume "distinct (map unique_together (student_items l))"
  then show ?thesis using Create_student_item
    by (simp add: create_student_item_keeps_unique)
next
  case (Append_submission sub)
  assume "distinct (map unique_together (student_items l))"
  then show ?thesis using Append_submission
    by (simp add: append_submission_def)
next
  case (Append_score sc)
  assume "distinct (map unique_together (student_items l))"
  then show ?thesis using Append_score
    by (simp add: append_score_def)
qed

lemma foldl_ledger_step_keeps_unique:
  "distinct (map unique_together (student_items l)) \<Longrightarrow>
   distinct (map unique_together (student_items (foldl ledger_step l ops)))"
  by (induction ops arbitrary: l) (simp_all add: ledger_step_keeps_unique)

lemma run_ledger_unique: "distinct (map unique_together (student_items (run_ledger ops)))"
  unfolding run_ledger_def
  by (rule foldl_ledger_step_keeps_unique) (simp add: empty_ledger_def)

text \<open>
  C9. In every ledger reached from the empty one by the ledger operations, at most one
  StudentItem row carries a given (course_id, student_id, item_id) triple, and every
  operation keeps the triples of the table distinct. When a triple is already in the
  table, saving a row with it is rejected with \<open>IntegrityError\<close>, and creating a
  StudentItem with it leaves the ledger as it was and returns the row that exists.
\<close>

theorem student_item_triple_unique:
  "length (filter (\<lambda>row. unique_together row = triple) (student_items (run_ledger ops))) \<le> 1 \<and>
   (distinct (map unique_together (student_items l)) \<longrightarrow>
      distinct (map unique_together (student_items (ledger_step l op)))) \<and>
   (unique_together si \<in> set (map unique_together (student_items l)) \<longrightarrow>
      save_student_item l si = Inl IntegrityError \<and>
      snd (create_student_item l si) = l \<and>
      (\<exists>row. fst (create_student_item l si) = Inr row \<and> row \<in> set (student_items l) \<and>
             unique_together row = unique_together si))"
proof (intro conjI impI)
  show "length (filter (\<lambda>row. unique_together row = triple) (student_items (run_ledger ops))) \<le> 1"
    by (rule distinct_map_filter_le1 [OF run_ledger_unique])
  show "distinct (map unique_together (student_items (ledger_step l op)))"
    if "distinct (map unique_together (student_items l))"
    using that by (rule ledger_step_keeps_unique)
next
  assume h: "unique_together si \<in> set (map unique_together (student_items l))"
  show "save_student_item l si = Inl IntegrityError"
    using h by (simp add: save_student_item_def)
  from find_present [OF h] obtain row
    where f: "find (\<lambda>row. unique_together row = unique_together si) (student_items l) = Some row"
    by blast
  show "snd (create_student_item l si) = l"
    by (simp add: create_student_item_def f)
  show "\<exists>row. fst (create_student_item l si) = Inr row \<and> row \<in> set (student_items l) \<and>
             unique_together row = unique_together si"
    using find_Some_mem [OF f] by (simp add: create_student_item_def f)
qed

theorem student_item_triple_unique_witness:
  "student_items (run_ledger [Create_student_item demo_item]) = [demo_item] \<and>
   unique_together (demo_item\<lparr>item_type := ''other''\<rparr>) \<in>
     set (map unique_together (student_items (run_ledger [Create_student_item demo_item]))) \<and>
   save_student_item (run_ledger [Create_student_item demo_item])
     (demo_item\<lparr>item_type := ''other''\<rparr>) = Inl IntegrityError \<and>
   create_student_item (run_ledger [Create_student_item demo_item])
     (demo_item\<lparr>item_type := ''other''\<rparr>) =
     (Inr demo_item, run_ledger [Create_student_item demo_item]) \<and>
   student_items (run_ledger [Create_student_item demo_item,
       Save_student_item (demo_item\<lparr>item_type := ''other''\<rparr>),
       Create_student_item (demo_item\<lparr>item_type := ''other''\<rparr>)]) = [demo_item] \<and>
   distinct (map unique_together (student_items
     (ledger_step (run_ledger [Create_student_item demo_item])
        (Create_student_item (demo_item\<lparr>item_type := ''other''\<rparr>)))))"
proof -
  let ?l = "run_ledger [Create_student_item demo_item]"
  let ?si = "demo_item\<lparr>item_type := ''other''\<rparr>"
  have l: "?l = \<lparr>student_items = [demo_item], submissions = [], scores = []\<rparr>"
    by (simp add: run_ledger_def empty_ledger_def create_student_item_def
        save_student_item_def)
  have u: "unique_together ?si = unique_together demo_item"
    by (simp add: unique_together_def)
  have m: "unique_together ?si \<in> set (map unique_together (student_items ?l))"
    by (simp add: l u)
  have d: "distinct (map unique_together (student_items ?l))"
    by (simp add: l)
  have c: "create_student_item ?l ?si = (Inr demo_item, ?l)"
    by (simp add: l create_student_item_def u)
  have r: "student_items (run_ledger [Create_student_item demo_item,
       Save_student_item ?si, Create_student_item ?si]) = [demo_item]"
    by (simp add: run_ledger_def empty_ledger_def create_student_item_def
        save_student_item_def u)
  from student_item_triple_unique [where l = ?l and si = ?si
      and op = "Create_student_item ?si"] m d
  have "save_student_item ?l ?si = Inl IntegrityError \<and>
        distinct (map unique_together (student_items (ledger_step ?l (Create_student_item ?si))))"
    by blast
  with l m c r show ?thesis by simp
qed

end
